theory Spec2Isabelle
  imports Complex_Main
begin

section \<open>The vacuum adapter of lib/devices/vacuum.js\<close>

text \<open>
  The adapter turns the raw status of a robot vacuum into named properties, derives the
  charging, cleaning and error states from the \<open>state\<close> property, and wraps the remote
  commands of the device. The embedding follows the source function by function:
  JavaScript values are a datatype, the device object is a record, a promise is a
  function from the trace of remote calls made so far to its outcome and the new trace,
  and a rejected promise or a thrown exception is the left summand of a sum.
\<close>

subsection \<open>JavaScript values\<close>

text \<open>
  Numbers are exact rationals together with \<open>NaN\<close>: the integers a device sends in its
  JSON replies are exact, and the rounding of a quotient to a double is not modelled.
  A date value carries its time in milliseconds since the epoch; \<open>InvalidDate\<close> is the
  date whose time is \<open>NaN\<close>. An object is the list of its own properties.
\<close>

datatype jsval =
    Undefined
  | Null
  | Bool bool
  | Num rat
  | NaN
  | Str string
  | DateV int
  | InvalidDate
  | Arr "jsval list"
  | Obj "(string \<times> jsval) list"

text \<open>What a promise is rejected with, or what a callback throws.\<close>

datatype failure =
    Rejected jsval   \<comment> \<open>the transport or the result check rejected, with this reason\<close>
  | TypeError        \<comment> \<open>a member of \<open>undefined\<close> or \<open>null\<close> was read, or a non-function called\<close>
  | Unmodelled       \<comment> \<open>a coercion of the language that this development does not cover\<close>

subsection \<open>Decimal rendering of integers\<close>

text \<open>
  \<open>"unknown-" + s\<close> and \<open>"Unknown error " + e\<close> append the decimal form of an integer
  code: digits, with a leading minus sign below zero. Raw codes are modelled as
  mathematical integers; a JavaScript number holds an integer exactly, and prints it this
  way, when its magnitude is at most \<open>2^53\<close>, far above any code of a device.
\<close>

definition digit_char :: "nat \<Rightarrow> char" where
  "digit_char n = ''0123456789'' ! (n mod 10)"

fun string_of_nat :: "nat \<Rightarrow> string" where
  "string_of_nat n =
     (if n < 10 then [digit_char n] else string_of_nat (n div 10) @ [digit_char (n mod 10)])"

declare string_of_nat.simps [simp del]

definition string_of_int :: "int \<Rightarrow> string" where
  "string_of_int i = (if i < 0 then CHR ''-'' # string_of_nat (nat (- i)) else string_of_nat (nat i))"

text \<open>The number that a string of decimal digits stands for.\<close>

definition decimal_value :: "string \<Rightarrow> nat" where
  "decimal_value cs = foldl (\<lambda>a c. 10 * a + (of_char c - 48)) 0 cs"

subsection \<open>The property definitions of the constructor\<close>

text \<open>
  The mapper of \<open>error_code\<close> (property \<open>error\<close>), lines 37 to 52: a \<open>switch\<close> with the
  single case \<open>0\<close> and a default. The raw code is an integer of the device's status.
\<close>

definition error_mapper :: "int \<Rightarrow> jsval" where
  "error_mapper e =
     (if e = 0 then Null
      else Obj [(''code'', Num (of_int e)),
                (''message'', Str (''Unknown error '' @ string_of_int e))])"

text \<open>
  The mapper of \<open>state\<close>, lines 54 to 94: eighteen cases, and after the \<open>switch\<close> the
  fallback \<open>"unknown-" + s\<close>.
\<close>

definition state_mapper :: "int \<Rightarrow> string" where
  "state_mapper s =
     (if s = 1 then ''initiating''
      else if s = 2 then ''charger-offline''
      else if s = 3 then ''waiting''
      else if s = 5 then ''cleaning''
      else if s = 6 then ''returning''
      else if s = 8 then ''charging''
      else if s = 9 then ''charging-error''
      else if s = 10 then ''paused''
      else if s = 11 then ''spot-cleaning''
      else if s = 12 then ''error''
      else if s = 13 then ''shutting-down''
      else if s = 14 then ''updating''
      else if s = 15 then ''docking''
      else if s = 16 then ''going-to-location''
      else if s = 17 then ''zone-cleaning''
      else if s = 18 then ''room-cleaning''
      else if s = 22 then ''dust-collection''
      else if s = 100 then ''full''
      else ''unknown-'' @ string_of_int s)"

text \<open>The raw codes that have a case of their own in the \<open>switch\<close>.\<close>

definition known_state_codes :: "int list" where
  "known_state_codes = [1, 2, 3, 5, 6, 8, 9, 10, 11, 12, 13, 14, 15, 16, 17, 18, 22, 100]"

subsection \<open>The device and its update hooks\<close>

text \<open>
  What \<open>propertyUpdated\<close> calls on the device, in the order of the calls: the four
  update hooks of the capability mixins and the handler of the base class.
\<close>

datatype hook_call =
    UpdateCharging bool
  | UpdateCleaning bool
  | UpdateError jsval
  | UpdateFanSpeed jsval
  | BasePropertyUpdated string jsval jsval

text \<open>
  The device: its property values, read by \<open>this.property\<close>; the charging and the
  cleaning flag; the error and the fan speed last given to their hooks (the form in which
  a mixin keeps them is not part of the model); the calls made so far; and the exception
  that left \<open>propertyUpdated\<close>, if one did.
\<close>

record device =
  properties :: "(string \<times> jsval) list"
  charging_flag :: bool
  cleaning_flag :: bool
  error_state :: jsval
  fan_speed :: jsval
  hook_log :: "hook_call list"
  thrown :: "failure option"

text \<open>
  Modelled from the spec: \<open>this.property(name)\<close>, the read access of the base class,
  absent from the source: the stored value, \<open>undefined\<close> when there is none.
\<close>

definition property :: "device \<Rightarrow> string \<Rightarrow> jsval" where
  "property d name = (case map_of (properties d) name of None \<Rightarrow> Undefined | Some v \<Rightarrow> v)"

text \<open>
  The four update hooks come from the capability mixins, which are not part of the
  source file. They are modelled on the arguments that the spec declares for them, and
  each call is recorded.
\<close>

text \<open>
  Modelled from the spec: \<open>updateCharging(bool)\<close>, the hook of the charging state, absent
  from the source. It sets the charging flag.
\<close>

definition updateCharging :: "bool \<Rightarrow> device \<Rightarrow> device" where
  "updateCharging b d = d\<lparr>charging_flag := b, hook_log := hook_log d @ [UpdateCharging b]\<rparr>"

text \<open>
  Modelled from the spec: \<open>updateCleaning(bool)\<close>, the hook of the cleaning state, absent
  from the source. It sets the cleaning flag.
\<close>

definition updateCleaning :: "bool \<Rightarrow> device \<Rightarrow> device" where
  "updateCleaning b d = d\<lparr>cleaning_flag := b, hook_log := hook_log d @ [UpdateCleaning b]\<rparr>"

text \<open>
  Modelled from the spec: \<open>updateError(errorObjectOrNull)\<close>, the hook of the error state,
  absent from the source. In the rule table of the spec every row that raises an error
  has the cleaning flag false, and the source calls nothing but this hook there: raising
  the error is what takes the vacuum out of cleaning. The hook takes the error and
  clears the cleaning flag.
\<close>

definition updateError :: "jsval \<Rightarrow> device \<Rightarrow> device" where
  "updateError e d =
     d\<lparr>error_state := e, cleaning_flag := False, hook_log := hook_log d @ [UpdateError e]\<rparr>"

text \<open>
  Modelled from the spec: \<open>updateFanSpeed(number)\<close>, the hook of the fan speed, absent from
  the source. It is declared for a number. What the mixin does with any other value,
  whether it converts it or throws, is not covered: the model ends the call there with
  \<open>Unmodelled\<close>.
\<close>

definition updateFanSpeed :: "jsval \<Rightarrow> device \<Rightarrow> failure + device" where
  "updateFanSpeed v d =
     (case v of
        Num r \<Rightarrow> Inr (d\<lparr>fan_speed := v, hook_log := hook_log d @ [UpdateFanSpeed v]\<rparr>)
      | _ \<Rightarrow> Inl Unmodelled)"

text \<open>
  Modelled from the spec: \<open>super.propertyUpdated\<close> is the generic passthrough of the base
  class, which is not part of the source file. The model records the call and its three
  arguments.
\<close>

definition base_propertyUpdated :: "string \<Rightarrow> jsval \<Rightarrow> jsval \<Rightarrow> device \<Rightarrow> device" where
  "base_propertyUpdated key v oldValue d =
     d\<lparr>hook_log := hook_log d @ [BasePropertyUpdated key v oldValue]\<rparr>"

text \<open>
  The \<open>switch (value)\<close> of lines 146 to 180. The comparison of a \<open>switch\<close> is strict
  equality, so a case is taken only by the string itself.
\<close>

definition state_rules :: "jsval \<Rightarrow> device \<Rightarrow> device" where
  "state_rules v d =
     (if v = Str ''cleaning'' \<or> v = Str ''spot-cleaning'' \<or> v = Str ''zone-cleaning''
         \<or> v = Str ''zone-cleaning'' \<or> v = Str ''room-cleaning''
      then updateCleaning True d
      else if v = Str ''paused'' then d
      else if v = Str ''error'' then updateError (property d ''error'') d
      else if v = Str ''charging-error''
      then updateError (Obj [(''code'', Str ''charging-error''),
                             (''message'', Str ''Error during charging'')]) d
      else if v = Str ''charger-offline''
      then updateError (Obj [(''code'', Str ''charger-offline''),
                             (''message'', Str ''Charger is offline'')]) d
      else updateCleaning False d)"

text \<open>
  \<open>propertyUpdated(key, value, oldValue)\<close>, lines 141 to 186. When the hook of the fan
  speed does not return, the call of the base handler in line 185 is not reached: the
  device is left with the call of the hook in its log and the exception in \<open>thrown\<close>.
\<close>

definition propertyUpdated :: "string \<Rightarrow> jsval \<Rightarrow> jsval \<Rightarrow> device \<Rightarrow> device" where
  "propertyUpdated key v oldValue d =
     (if key = ''state''
      then base_propertyUpdated key v oldValue
             (state_rules v (updateCharging (v = Str ''charging'') d))
      else if key = ''fanSpeed''
      then (case updateFanSpeed v d of
              Inr d' \<Rightarrow> base_propertyUpdated key v oldValue d'
            | Inl e \<Rightarrow> d\<lparr>hook_log := hook_log d @ [UpdateFanSpeed v], thrown := Some e\<rparr>)
      else base_propertyUpdated key v oldValue d)"

text \<open>The calls that a run added to the log of the device.\<close>

definition new_calls :: "device \<Rightarrow> device \<Rightarrow> hook_call list" where
  "new_calls d d' = drop (length (hook_log d)) (hook_log d')"

fun is_base_call :: "hook_call \<Rightarrow> bool" where
  "is_base_call (BasePropertyUpdated k v w) = True"
| "is_base_call c = False"

subsection \<open>Remote calls and promises\<close>

text \<open>
  The options of a call: \<open>{refresh: [...], refreshDelay: ...}\<close>; some commands give no
  delay.
\<close>

record call_options =
  refresh :: "string list"
  refreshDelay :: "nat option"

text \<open>
  What a command does that can be observed from outside, in order: a remote call with
  its method, arguments and options, and a timer of so many milliseconds that the
  command waits for.
\<close>

datatype event =
    Call string jsval "call_options option"
  | Wait nat

text \<open>
  The device and the transport, seen from the adapter: the outcome of the call issued
  last, which may depend on everything issued before it, and, when two calls are
  outstanding together, whether the one issued later settles first.
\<close>

record network =
  reply :: "event list \<Rightarrow> failure + jsval"
  later_settles_first :: "event list \<Rightarrow> bool"

text \<open>
  A promise, run from a trace of events: how it settles (\<open>Inl\<close> rejected, \<open>Inr\<close>
  fulfilled) and the trace afterwards.
\<close>

type_synonym 'a promise = "event list \<Rightarrow> (failure + 'a) \<times> event list"

text \<open>
  Modelled from the spec: \<open>this.call(method, args, options)\<close> is the remote call of the
  base class, which is not part of the source file; the adapter uses it as one
  operation, and the refresh that the options ask for happens inside it.
\<close>

definition call :: "network \<Rightarrow> string \<Rightarrow> jsval \<Rightarrow> call_options option \<Rightarrow> jsval promise" where
  "call net method args options tr =
     (let tr' = tr @ [Call method args options] in (reply net tr', tr'))"

text \<open>\<open>p.then(f)\<close> with \<open>f\<close> returning a promise: \<open>f\<close> runs only when \<open>p\<close> is fulfilled.\<close>

definition then_promise :: "'a promise \<Rightarrow> ('a \<Rightarrow> 'b promise) \<Rightarrow> 'b promise" where
  "then_promise p f tr =
     (case p tr of (Inl e, tr') \<Rightarrow> (Inl e, tr') | (Inr v, tr') \<Rightarrow> f v tr')"

text \<open>\<open>p.then(f)\<close> with \<open>f\<close> returning a value or throwing.\<close>

definition then_sync :: "'a promise \<Rightarrow> ('a \<Rightarrow> failure + 'b) \<Rightarrow> 'b promise" where
  "then_sync p f tr =
     (case p tr of (Inl e, tr') \<Rightarrow> (Inl e, tr') | (Inr v, tr') \<Rightarrow> (f v, tr'))"

text \<open>\<open>p.catch(g)\<close>: \<open>g\<close> runs only when \<open>p\<close> is rejected, and its promise replaces \<open>p\<close>.\<close>

definition catch_promise :: "'a promise \<Rightarrow> (failure \<Rightarrow> 'a promise) \<Rightarrow> 'a promise" where
  "catch_promise p g tr =
     (case p tr of (Inl e, tr') \<Rightarrow> g e tr' | (Inr v, tr') \<Rightarrow> (Inr v, tr'))"

text \<open>\<open>new Promise((resolve) => setTimeout(resolve, ms))\<close>.\<close>

definition wait :: "nat \<Rightarrow> jsval promise" where
  "wait ms tr = (Inr Undefined, tr @ [Wait ms])"

text \<open>
  \<open>Promise.all\<close> of two promises that are already running: fulfilled with both values,
  rejected as soon as one of them is, with the reason of the one rejected first.
\<close>

definition promise_all2 :: "bool \<Rightarrow> failure + 'a \<Rightarrow> failure + 'b \<Rightarrow> failure + 'a \<times> 'b" where
  "promise_all2 later_first a b =
     (case (a, b) of
        (Inr x, Inr y) \<Rightarrow> Inr (x, y)
      | (Inl e, Inr y) \<Rightarrow> Inl e
      | (Inr x, Inl e) \<Rightarrow> Inl e
      | (Inl e, Inl e') \<Rightarrow> Inl (if later_first then e' else e))"

subsection \<open>The commands\<close>

text \<open>
  The result check \<open>checkResult\<close> is required from another file; the commands take it as
  the parameter \<open>chk\<close>, which returns the value to go on with or throws.
\<close>

definition state_refresh :: "call_options option" where
  "state_refresh = Some \<lparr>refresh = [''state''], refreshDelay = Some 1000\<rparr>"

text \<open>\<open>pause()\<close>, lines 247 to 252.\<close>

definition pause :: "(jsval \<Rightarrow> failure + jsval) \<Rightarrow> network \<Rightarrow> jsval promise" where
  "pause chk net = then_sync (call net ''app_pause'' (Arr []) state_refresh) chk"

text \<open>\<open>deactivateCleaning()\<close>, lines 257 to 262.\<close>

definition deactivateCleaning :: "(jsval \<Rightarrow> failure + jsval) \<Rightarrow> network \<Rightarrow> jsval promise" where
  "deactivateCleaning chk net = then_sync (call net ''app_stop'' (Arr []) state_refresh) chk"

text \<open>\<open>activateCharging()\<close>, lines 267 to 281: the chain of five promises.\<close>

definition activateCharging :: "(jsval \<Rightarrow> failure + jsval) \<Rightarrow> network \<Rightarrow> jsval promise" where
  "activateCharging chk net =
     then_sync
       (then_promise
          (then_promise
             (catch_promise (pause chk net) (\<lambda>e. deactivateCleaning chk net))
             (\<lambda>v. wait 1000))
          (\<lambda>v. call net ''app_charge'' (Arr []) state_refresh))
       chk"

subsection \<open>Reading members of a value\<close>

text \<open>
  \<open>v[k]\<close> for a string key: reading a member of \<open>undefined\<close> or \<open>null\<close> throws; an
  object gives the value of its own property, an array or a string its element at a
  decimal index and its \<open>length\<close>; every other read gives \<open>undefined\<close>. Members
  inherited from a prototype (methods) are not modelled.
\<close>

definition index_of_key :: "nat \<Rightarrow> string \<Rightarrow> nat option" where
  "index_of_key n k = find (\<lambda>i. string_of_nat i = k) [0..<n]"

fun js_get :: "jsval \<Rightarrow> string \<Rightarrow> failure + jsval" where
  "js_get Undefined k = Inl TypeError"
| "js_get Null k = Inl TypeError"
| "js_get (Obj kvs) k = Inr (case map_of kvs k of None \<Rightarrow> Undefined | Some v \<Rightarrow> v)"
| "js_get (Arr xs) k =
     Inr (if k = ''length'' then Num (of_nat (length xs))
          else case index_of_key (length xs) k of None \<Rightarrow> Undefined | Some i \<Rightarrow> xs ! i)"
| "js_get (Str s) k =
     Inr (if k = ''length'' then Num (of_nat (length s))
          else case index_of_key (length s) k of None \<Rightarrow> Undefined | Some i \<Rightarrow> Str [s ! i])"
| "js_get v k = Inr Undefined"

text \<open>\<open>v[i]\<close> for a number \<open>i\<close> that is a natural number: the key is its decimal form.\<close>

definition js_at :: "jsval \<Rightarrow> nat \<Rightarrow> failure + jsval" where
  "js_at v i = js_get v (string_of_nat i)"

text \<open>\<open>obj[k] = v\<close> on a plain object: replaces the value of the key or adds the key.\<close>

fun obj_set :: "(string \<times> jsval) list \<Rightarrow> string \<Rightarrow> jsval \<Rightarrow> (string \<times> jsval) list" where
  "obj_set [] k v = [(k, v)]"
| "obj_set ((k', v') # kvs) k v =
     (if k' = k then (k, v) # kvs else (k', v') # obj_set kvs k v)"

subsection \<open>The snapshot loader\<close>

text \<open>
  A property definition as \<open>defineProperty\<close> stores it: the name the property is exposed
  under and its mapper.
\<close>

record property_definition =
  name :: string
  mapper :: "jsval \<Rightarrow> jsval"

text \<open>
  The two tables of the device that \<open>loadProperties\<close> reads: \<open>_propertyDefinitions\<close>
  from raw key to definition, and \<open>_reversePropertyDefinitions\<close> from exposed name to raw
  key.
\<close>

record definitions =
  propertyDefinitions :: "string \<Rightarrow> property_definition option"
  reversePropertyDefinitions :: "string \<Rightarrow> string option"

text \<open>
  Modelled from the spec: \<open>_pushProperty(result, name, value)\<close> belongs to the base class,
  which is not part of the source file. It applies the transform of the key and stores
  the value under the exposed name; a key without a definition passes through unchanged.
\<close>

definition pushProperty ::
  "definitions \<Rightarrow> (string \<times> jsval) list \<Rightarrow> string \<Rightarrow> jsval \<Rightarrow> (string \<times> jsval) list" where
  "pushProperty defs result key v =
     (case propertyDefinitions defs key of
        None \<Rightarrow> obj_set result key v
      | Some def \<Rightarrow> obj_set result (name def) (mapper def v))"

text \<open>
  \<open>this._reversePropertyDefinitions[key] || key\<close>: the raw key of the table, and the key
  itself when the table has none or has the empty string.
\<close>

definition raw_key :: "definitions \<Rightarrow> string \<Rightarrow> string" where
  "raw_key defs key =
     (case reversePropertyDefinitions defs key of
        None \<Rightarrow> key
      | Some r \<Rightarrow> if r = [] then key else r)"

text \<open>
  The \<open>props.forEach\<close> of lines 413 to 419, over the object \<open>mapped\<close>: the value of the
  status, and the value of the consumables when the status has \<open>undefined\<close>.
\<close>

fun merge_props ::
  "definitions \<Rightarrow> jsval \<Rightarrow> jsval \<Rightarrow> string list \<Rightarrow> (string \<times> jsval) list
     \<Rightarrow> failure + (string \<times> jsval) list" where
  "merge_props defs status consumables [] mapped = Inr mapped"
| "merge_props defs status consumables (prop # props) mapped =
     (case js_get status prop of
        Inl e \<Rightarrow> Inl e
      | Inr v \<Rightarrow>
          (case (if v = Undefined then js_get consumables prop else Inr v) of
             Inl e \<Rightarrow> Inl e
           | Inr v' \<Rightarrow> merge_props defs status consumables props (pushProperty defs mapped prop v')))"

text \<open>The callback given to \<open>then\<close> in lines 408 to 421, on the two results.\<close>

definition merge_results ::
  "definitions \<Rightarrow> string list \<Rightarrow> jsval \<times> jsval \<Rightarrow> failure + (string \<times> jsval) list" where
  "merge_results defs props result =
     (case js_at (fst result) 0 of
        Inl e \<Rightarrow> Inl e
      | Inr status \<Rightarrow>
          (case js_at (snd result) 0 of
             Inl e \<Rightarrow> Inl e
           | Inr consumables \<Rightarrow> merge_props defs status consumables props []))"

text \<open>
  \<open>loadProperties(props)\<close>, lines 401 to 422. Both calls are issued, in this order,
  while the argument of \<open>Promise.all\<close> is built, before either has settled.
\<close>

definition loadProperties ::
  "definitions \<Rightarrow> network \<Rightarrow> string list \<Rightarrow> ((string \<times> jsval) list) promise" where
  "loadProperties defs net props tr =
     (let props' = map (raw_key defs) props;
          (status_result, tr1) = call net ''get_status'' Undefined None tr;
          (consumable_result, tr2) = call net ''get_consumable'' Undefined None tr1
      in then_sync
           (\<lambda>t. (promise_all2 (later_settles_first net t) status_result consumable_result, t))
           (merge_results defs props') tr2)"

subsection \<open>The history of a day\<close>

text \<open>
  The number a value is coerced to by \<open>*\<close> and \<open>/\<close>; \<open>None\<close> is \<open>NaN\<close>. The coercion of a
  string or an array goes through the grammar of numeric literals and is not covered.
\<close>

fun to_number :: "jsval \<Rightarrow> failure + rat option" where
  "to_number Undefined = Inr None"
| "to_number Null = Inr (Some 0)"
| "to_number (Bool b) = Inr (Some (if b then 1 else 0))"
| "to_number (Num r) = Inr (Some r)"
| "to_number NaN = Inr None"
| "to_number (DateV t) = Inr (Some (of_int t))"
| "to_number InvalidDate = Inr None"
| "to_number (Obj kvs) = Inr None"
| "to_number (Str s) = Inl Unmodelled"
| "to_number (Arr xs) = Inl Unmodelled"

definition number_value :: "rat option \<Rightarrow> jsval" where
  "number_value n = (case n of None \<Rightarrow> NaN | Some r \<Rightarrow> Num r)"

text \<open>\<open>v * k\<close> and \<open>v / k\<close> for a nonzero constant \<open>k\<close>.\<close>

definition js_times :: "jsval \<Rightarrow> rat \<Rightarrow> failure + rat option" where
  "js_times v k = (case to_number v of Inl e \<Rightarrow> Inl e | Inr n \<Rightarrow> Inr (map_option (\<lambda>r. r * k) n))"

definition js_divide :: "jsval \<Rightarrow> rat \<Rightarrow> failure + rat option" where
  "js_divide v k = (case to_number v of Inl e \<Rightarrow> Inl e | Inr n \<Rightarrow> Inr (map_option (\<lambda>r. r / k) n))"

text \<open>
  \<open>new Date(n)\<close> for a number \<open>n\<close>: the time is \<open>n\<close> cut to an integer towards zero, and
  \<open>NaN\<close> when \<open>n\<close> is \<open>NaN\<close> or beyond 8.64e15 milliseconds from the epoch.
\<close>

definition new_Date :: "rat option \<Rightarrow> jsval" where
  "new_Date n =
     (case n of
        None \<Rightarrow> InvalidDate
      | Some r \<Rightarrow>
          if \<bar>r\<bar> \<le> 8640000000000000 then DateV (if 0 \<le> r then \<lfloor>r\<rfloor> else \<lceil>r\<rceil>)
          else InvalidDate)"

text \<open>The callback of \<open>result.map\<close>, lines 384 to 397, on one record \<open>data\<close>.\<close>

definition history_entry :: "jsval \<Rightarrow> failure + jsval" where
  "history_entry data =
     (case js_at data 0 of Inl e \<Rightarrow> Inl e | Inr d0 \<Rightarrow>
      case js_times d0 1000 of Inl e \<Rightarrow> Inl e | Inr start_ms \<Rightarrow>
      case js_at data 1 of Inl e \<Rightarrow> Inl e | Inr d1 \<Rightarrow>
      case js_times d1 1000 of Inl e \<Rightarrow> Inl e | Inr end_ms \<Rightarrow>
      case js_at data 2 of Inl e \<Rightarrow> Inl e | Inr d2 \<Rightarrow>
      case js_at data 3 of Inl e \<Rightarrow> Inl e | Inr d3 \<Rightarrow>
      case js_divide d3 1000000 of Inl e \<Rightarrow> Inl e | Inr area \<Rightarrow>
      case js_at data 5 of Inl e \<Rightarrow> Inl e | Inr d5 \<Rightarrow>
        Inr (Obj [(''start'', new_Date start_ms),
                  (''end'', new_Date end_ms),
                  (''duration'', d2),
                  (''area'', number_value area),
                  (''complete'', Bool (d5 = Num 1))]))"

text \<open>\<open>rows.map(f)\<close> for a callback that may throw: the first exception ends the loop.\<close>

fun map_entries :: "jsval list \<Rightarrow> failure + jsval list" where
  "map_entries [] = Inr []"
| "map_entries (data # rows) =
     (case history_entry data of
        Inl e \<Rightarrow> Inl e
      | Inr x \<Rightarrow> (case map_entries rows of Inl e \<Rightarrow> Inl e | Inr xs \<Rightarrow> Inr (x # xs)))"

text \<open>
  The callback given to \<open>then\<close> in lines 382 to 398. Only an array has a method \<open>map\<close>
  among the values a reply can be.
\<close>

definition history_result :: "jsval \<Rightarrow> jsval \<Rightarrow> failure + jsval" where
  "history_result day result =
     (case result of
        Arr rows \<Rightarrow>
          (case map_entries rows of
             Inl e \<Rightarrow> Inl e
           | Inr h \<Rightarrow> Inr (Obj [(''day'', day), (''history'', Arr h)]))
      | _ \<Rightarrow> Inl TypeError)"

text \<open>
  The value sent as the argument of \<open>get_clean_record\<close>, lines 378 to 381: for a date
  \<open>Math.floor(record.getTime() / 1000)\<close>, for any other value the value itself.
\<close>

definition record_of_day :: "jsval \<Rightarrow> jsval" where
  "record_of_day day =
     (case day of
        DateV t \<Rightarrow> Num (of_int \<lfloor>of_int t / (1000 :: rat)\<rfloor>)
      | InvalidDate \<Rightarrow> NaN
      | _ \<Rightarrow> day)"

text \<open>\<open>getHistoryForDay(day)\<close>, lines 377 to 399.\<close>

definition getHistoryForDay :: "network \<Rightarrow> jsval \<Rightarrow> jsval promise" where
  "getHistoryForDay net day =
     then_sync (call net ''get_clean_record'' (Arr [record_of_day day]) None)
       (history_result day)"

subsection \<open>Observations and example inputs\<close>

text \<open>The remote calls of one method among the events of a trace.\<close>

definition method_calls :: "string \<Rightarrow> event list \<Rightarrow> event list" where
  "method_calls m evs =
     filter (\<lambda>ev. case ev of Call m' args opts \<Rightarrow> m' = m | Wait n \<Rightarrow> False) evs"

text \<open>A vacuum in the middle of a cleaning run, with no error.\<close>

definition busy_device :: device where
  "busy_device =
     \<lparr>properties = [(''state'', Str ''cleaning''), (''error'', Null)],
      charging_flag = False, cleaning_flag = True, error_state = Null,
      fan_speed = Num 60, hook_log = [], thrown = None\<rparr>"

text \<open>A device that cannot be reached: every call is rejected.\<close>

definition unreachable :: network where
  "unreachable =
     \<lparr>reply = (\<lambda>tr. Inl (Rejected (Str ''timeout''))), later_settles_first = (\<lambda>tr. False)\<rparr>"

text \<open>A device that rejects \<open>app_pause\<close> and answers every other call with \<open>["ok"]\<close>.\<close>

definition refuses_pause :: network where
  "refuses_pause =
     \<lparr>reply = (\<lambda>tr. if method_calls ''app_pause'' [last tr] = []
                     then Inr (Arr [Str ''ok''])
                     else Inl (Rejected (Str ''not pausable''))),
      later_settles_first = (\<lambda>tr. False)\<rparr>"

text \<open>A device whose answer to every call is one cleaning record.\<close>

definition one_run :: network where
  "one_run =
     \<lparr>reply = (\<lambda>tr. Inr (Arr [Arr [Num 5, Num 65, Num 60, Num 26000000, Num 0, Num 1]])),
      later_settles_first = (\<lambda>tr. False)\<rparr>"

text \<open>The definition of \<open>battery\<close> alone, as line 97 makes it: exposed as \<open>batteryLevel\<close>.\<close>

definition battery_definitions :: definitions where
  "battery_definitions =
     \<lparr>propertyDefinitions =
        (\<lambda>k. if k = ''battery'' then Some \<lparr>name = ''batteryLevel'', mapper = (\<lambda>v. v)\<rparr> else None),
      reversePropertyDefinitions =
        (\<lambda>k. if k = ''batteryLevel'' then Some ''battery'' else None)\<rparr>"

section \<open>Properties\<close>

subsection \<open>Auxiliary facts\<close>

lemmas hook_defs =
  propertyUpdated_def state_rules_def base_propertyUpdated_def updateCharging_def
  updateCleaning_def updateError_def updateFanSpeed_def new_calls_def

lemmas promise_defs =
  call_def then_promise_def then_sync_def catch_promise_def wait_def

lemma string_of_int_digit:
  "string_of_int 4 = ''4''" "string_of_int 7 = ''7''" "string_of_int (- 7) = ''-7''"
  by (simp_all add: string_of_int_def string_of_nat.simps digit_char_def)

lemma digit_char_value: "d < 10 \<Longrightarrow> of_char (digit_char d) = (48 + d :: nat)"
proof -
  assume "d < 10"
  then have "d \<in> {0, 1, 2, 3, 4, 5, 6, 7, 8, 9}" by auto
  then show ?thesis by (auto simp add: digit_char_def)
qed

lemma decimal_value_snoc: "decimal_value (cs @ [c]) = 10 * decimal_value cs + (of_char c - 48)"
  by (simp add: decimal_value_def)

text \<open>The rendering of a natural number is its decimal form: reading it back gives the number.\<close>

lemma string_of_nat_decimal: "decimal_value (string_of_nat n) = n"
proof (induction n rule: string_of_nat.induct)
  case (1 n)
  show ?case
  proof (cases "n < 10")
    case True
    then show ?thesis
      by (subst string_of_nat.simps) (simp add: decimal_value_def digit_char_value)
  next
    case False
    with 1 have "decimal_value (string_of_nat (n div 10)) = n div 10" by simp
    with False show ?thesis
      by (subst string_of_nat.simps) (simp add: decimal_value_snoc digit_char_value)
  qed
qed

text \<open>The label of a code outside the table is none of the labels of the table.\<close>

lemma unknown_label_is_fresh:
  "s \<notin> set known_state_codes \<Longrightarrow> state_mapper s \<notin> state_mapper ` set known_state_codes"
proof -
  assume a: "s \<notin> set known_state_codes"
  then have "take 2 (state_mapper s) = ''un''"
    by (simp add: known_state_codes_def state_mapper_def)
  moreover have "\<forall>l \<in> state_mapper ` set known_state_codes. take 2 l \<noteq> ''un''"
    by (simp add: known_state_codes_def state_mapper_def)
  ultimately show ?thesis by blast
qed

lemma pause_trace: "snd (pause chk net tr) = tr @ [Call ''app_pause'' (Arr []) state_refresh]"
  by (simp add: pause_def promise_defs Let_def split: sum.splits prod.splits)

lemma deactivateCleaning_trace:
  "snd (deactivateCleaning chk net tr) = tr @ [Call ''app_stop'' (Arr []) state_refresh]"
  by (simp add: deactivateCleaning_def promise_defs Let_def split: sum.splits prod.splits)

lemma record_of_day_date: "record_of_day (DateV t) = Num (of_int (t div 1000))"
  by (simp add: record_of_day_def floor_divide_of_int_eq [of t 1000, simplified])

lemma record_of_day_seconds: "record_of_day (Num r) = Num r"
  by (simp add: record_of_day_def)

lemma one_run_entry:
  "history_entry (Arr [Num 5, Num 65, Num 60, Num 26000000, Num 0, Num 1]) =
     Inr (Obj [(''start'', DateV 5000), (''end'', DateV 65000), (''duration'', Num 60),
               (''area'', Num 26), (''complete'', Bool True)])"
  by code_simp

subsection \<open>The state and error mappers\<close>

text \<open>
  C2. The mapper of \<open>state\<close> gives each of the eighteen raw codes of the table its label,
  and gives every other integer code \<open>s\<close> the label \<open>"unknown-"\<close> followed by \<open>s\<close>. It is a
  total function: no code makes it fail.
\<close>

theorem state_mapper_labels:
  "map (\<lambda>s. (s, state_mapper s)) known_state_codes =
     [(1, ''initiating''), (2, ''charger-offline''), (3, ''waiting''), (5, ''cleaning''),
      (6, ''returning''), (8, ''charging''), (9, ''charging-error''), (10, ''paused''),
      (11, ''spot-cleaning''), (12, ''error''), (13, ''shutting-down''), (14, ''updating''),
      (15, ''docking''), (16, ''going-to-location''), (17, ''zone-cleaning''),
      (18, ''room-cleaning''), (22, ''dust-collection''), (100, ''full'')]
   \<and> (\<forall>s. s \<notin> set known_state_codes \<longrightarrow> state_mapper s = ''unknown-'' @ string_of_int s)"
  by (simp add: known_state_codes_def state_mapper_def)

theorem state_mapper_labels_witness:
  "(4::int) \<notin> set known_state_codes \<and> state_mapper 4 = ''unknown-4''
   \<and> (- 7::int) \<notin> set known_state_codes \<and> state_mapper (- 7) = ''unknown--7''"
proof -
  have a: "(4::int) \<notin> set known_state_codes" and b: "(- 7::int) \<notin> set known_state_codes"
    by (simp_all add: known_state_codes_def)
  have r: "s \<notin> set known_state_codes \<Longrightarrow> state_mapper s = ''unknown-'' @ string_of_int s" for s
    using state_mapper_labels by blast
  from r [OF a] r [OF b] a b show ?thesis
    by (simp add: string_of_int_digit)
qed

text \<open>
  C8. The mapper of \<open>error\<close> gives \<open>null\<close> for the raw code 0 and, for every other code
  \<open>e\<close>, the object with \<open>code\<close> equal to \<open>e\<close> and the message \<open>"Unknown error "\<close> followed by
  \<open>e\<close>; no code other than 0 gives \<open>null\<close>.
\<close>

theorem error_mapper_codes:
  "error_mapper 0 = Null
   \<and> (\<forall>e. e \<noteq> 0 \<longrightarrow>
         error_mapper e = Obj [(''code'', Num (of_int e)),
                               (''message'', Str (''Unknown error '' @ string_of_int e))]
         \<and> js_get (error_mapper e) ''code'' = Inr (Num (of_int e))
         \<and> error_mapper e \<noteq> Null)"
  by (simp add: error_mapper_def)

theorem error_mapper_codes_witness:
  "(7::int) \<noteq> 0
   \<and> error_mapper 7 = Obj [(''code'', Num 7), (''message'', Str ''Unknown error 7'')]"
  using error_mapper_codes by (auto simp add: string_of_int_digit)

subsection \<open>The state projector\<close>

text \<open>
  C1. When the new value of \<open>state\<close> is \<open>error\<close>, \<open>charging-error\<close> or \<open>charger-offline\<close>,
  \<open>propertyUpdated\<close> calls \<open>updateCharging(false)\<close>, then \<open>updateError\<close>, then the base
  handler, and nothing else. Afterwards the charging flag and the cleaning flag are both
  false. The error given to \<open>updateError\<close> is the current value of the \<open>error\<close> property
  for \<open>error\<close>, and the fixed object with the code \<open>charging-error\<close> or \<open>charger-offline\<close>
  and its message for the other two.
\<close>

theorem error_states_raise_error:
  "(let d' = propertyUpdated ''state'' (Str ''error'') old d in
      charging_flag d' = False \<and> cleaning_flag d' = False
      \<and> new_calls d d' =
          [UpdateCharging False, UpdateError (property d ''error''),
           BasePropertyUpdated ''state'' (Str ''error'') old])
   \<and> (let d' = propertyUpdated ''state'' (Str ''charging-error'') old d in
      charging_flag d' = False \<and> cleaning_flag d' = False
      \<and> new_calls d d' =
          [UpdateCharging False,
           UpdateError (Obj [(''code'', Str ''charging-error''),
                             (''message'', Str ''Error during charging'')]),
           BasePropertyUpdated ''state'' (Str ''charging-error'') old])
   \<and> (let d' = propertyUpdated ''state'' (Str ''charger-offline'') old d in
      charging_flag d' = False \<and> cleaning_flag d' = False
      \<and> new_calls d d' =
          [UpdateCharging False,
           UpdateError (Obj [(''code'', Str ''charger-offline''),
                             (''message'', Str ''Charger is offline'')]),
           BasePropertyUpdated ''state'' (Str ''charger-offline'') old])"
  by (simp add: hook_defs property_def Let_def)

theorem error_states_raise_error_witness:
  "cleaning_flag busy_device = True
   \<and> charging_flag
        (propertyUpdated ''state'' (Str ''error'') (Str ''cleaning'') busy_device) = False
   \<and> cleaning_flag
        (propertyUpdated ''state'' (Str ''error'') (Str ''cleaning'') busy_device) = False
   \<and> hook_log (propertyUpdated ''state'' (Str ''error'') (Str ''cleaning'') busy_device) =
       [UpdateCharging False, UpdateError Null,
        BasePropertyUpdated ''state'' (Str ''error'') (Str ''cleaning'')]
   \<and> cleaning_flag
        (propertyUpdated ''state'' (Str ''charger-offline'') (Str ''cleaning'') busy_device)
       = False"
proof -
  have c: "cleaning_flag busy_device = True" and l: "hook_log busy_device = []"
    and p: "property busy_device ''error'' = Null"
    by (simp_all add: busy_device_def property_def)
  have "hook_log (propertyUpdated ''state'' (Str ''error'') (Str ''cleaning'') busy_device) =
          new_calls busy_device
            (propertyUpdated ''state'' (Str ''error'') (Str ''cleaning'') busy_device)"
    by (simp add: new_calls_def l)
  with error_states_raise_error [where d = busy_device and old = "Str ''cleaning''"] c p
  show ?thesis by (simp add: Let_def)
qed

text \<open>
  C5. On a change of \<open>state\<close>, \<open>updateCleaning(true)\<close> is called exactly when the new value
  is \<open>cleaning\<close>, \<open>spot-cleaning\<close>, \<open>zone-cleaning\<close> or \<open>room-cleaning\<close>, and the cleaning flag
  is then true; for \<open>paused\<close> the cleaning flag keeps its value and \<open>updateCleaning\<close> is not
  called; for every value that the rule table does not name, \<open>updateCleaning(false)\<close> is
  called and the cleaning flag is false.
\<close>

theorem cleaning_flag_rules:
  "(let d' = propertyUpdated ''state'' v old d in
     (UpdateCleaning True \<in> set (new_calls d d') \<longleftrightarrow>
        v \<in> {Str ''cleaning'', Str ''spot-cleaning'', Str ''zone-cleaning'', Str ''room-cleaning''})
     \<and> (v \<in> {Str ''cleaning'', Str ''spot-cleaning'', Str ''zone-cleaning'', Str ''room-cleaning''}
          \<longrightarrow> cleaning_flag d' = True)
     \<and> (v = Str ''paused'' \<longrightarrow>
           cleaning_flag d' = cleaning_flag d \<and> (\<forall>b. UpdateCleaning b \<notin> set (new_calls d d')))
     \<and> (v \<notin> {Str ''charging'', Str ''cleaning'', Str ''spot-cleaning'', Str ''zone-cleaning'',
               Str ''room-cleaning'', Str ''paused'', Str ''error'', Str ''charging-error'',
               Str ''charger-offline''}
          \<longrightarrow> cleaning_flag d' = False \<and> UpdateCleaning False \<in> set (new_calls d d')))"
  by (simp add: hook_defs Let_def)

theorem cleaning_flag_rules_witness:
  "Str ''docking'' \<notin> {Str ''charging'', Str ''cleaning'', Str ''spot-cleaning'',
       Str ''zone-cleaning'', Str ''room-cleaning'', Str ''paused'', Str ''error'',
       Str ''charging-error'', Str ''charger-offline''}
   \<and> cleaning_flag
        (propertyUpdated ''state'' (Str ''docking'') (Str ''cleaning'') busy_device) = False
   \<and> Str ''zone-cleaning'' \<in> {Str ''cleaning'', Str ''spot-cleaning'', Str ''zone-cleaning'',
       Str ''room-cleaning''}
   \<and> cleaning_flag
        (propertyUpdated ''state'' (Str ''zone-cleaning'') (Str ''docking'') busy_device) = True
   \<and> cleaning_flag
        (propertyUpdated ''state'' (Str ''paused'') (Str ''cleaning'') busy_device) = True"
proof -
  have c: "cleaning_flag busy_device = True"
    by (simp add: busy_device_def)
  from cleaning_flag_rules [where v = "Str ''docking''" and old = "Str ''cleaning''" and d = busy_device]
    cleaning_flag_rules [where v = "Str ''zone-cleaning''" and old = "Str ''docking''" and d = busy_device]
    cleaning_flag_rules [where v = "Str ''paused''" and old = "Str ''cleaning''" and d = busy_device] c
  show ?thesis by (simp add: Let_def)
qed

text \<open>
  C6. On a change of \<open>state\<close>, the first call is \<open>updateCharging\<close> with the truth value of
  "the new value is \<open>charging\<close>", and the charging flag has that value afterwards, whatever
  the branch of the rule table. The calls of a run are, in this order: for \<open>state\<close>,
  \<open>updateCharging\<close>, then the one hook of the branch taken (\<open>updateCleaning(true)\<close> for
  the four cleaning values, none for \<open>paused\<close>, \<open>updateError\<close> for the three error values,
  \<open>updateCleaning(false)\<close> for any other value), then the base handler; for \<open>fanSpeed\<close>
  with a number, \<open>updateFanSpeed\<close>, then the base handler; for any other key, the base
  handler alone. So every rule has run when the base handler is called, and no call
  follows the base handler.
\<close>

theorem charging_flag_and_order:
  "(let d' = propertyUpdated key v old d in
     (key = ''state'' \<longrightarrow>
        charging_flag d' = (v = Str ''charging'')
        \<and> hd (new_calls d d') = UpdateCharging (v = Str ''charging''))
     \<and> hook_log d' = hook_log d @ new_calls d d'
     \<and> new_calls d d' \<noteq> []
     \<and> (\<forall>c \<in> set (butlast (new_calls d d')). \<not> is_base_call c)
     \<and> (key = ''state''
          \<and> v \<in> {Str ''cleaning'', Str ''spot-cleaning'', Str ''zone-cleaning'',
                  Str ''room-cleaning''} \<longrightarrow>
          new_calls d d' =
            [UpdateCharging False, UpdateCleaning True, BasePropertyUpdated key v old])
     \<and> (key = ''state'' \<and> v = Str ''paused'' \<longrightarrow>
          new_calls d d' = [UpdateCharging False, BasePropertyUpdated key v old])
     \<and> (key = ''state'' \<and> v = Str ''error'' \<longrightarrow>
          new_calls d d' =
            [UpdateCharging False, UpdateError (property d ''error''),
             BasePropertyUpdated key v old])
     \<and> (key = ''state'' \<and> v = Str ''charging-error'' \<longrightarrow>
          new_calls d d' =
            [UpdateCharging False,
             UpdateError (Obj [(''code'', Str ''charging-error''),
                               (''message'', Str ''Error during charging'')]),
             BasePropertyUpdated key v old])
     \<and> (key = ''state'' \<and> v = Str ''charger-offline'' \<longrightarrow>
          new_calls d d' =
            [UpdateCharging False,
             UpdateError (Obj [(''code'', Str ''charger-offline''),
                               (''message'', Str ''Charger is offline'')]),
             BasePropertyUpdated key v old])
     \<and> (key = ''state''
          \<and> v \<notin> {Str ''cleaning'', Str ''spot-cleaning'', Str ''zone-cleaning'',
                  Str ''room-cleaning'', Str ''paused'', Str ''error'', Str ''charging-error'',
                  Str ''charger-offline''} \<longrightarrow>
          new_calls d d' =
            [UpdateCharging (v = Str ''charging''), UpdateCleaning False,
             BasePropertyUpdated key v old])
     \<and> (\<forall>r. key = ''fanSpeed'' \<and> v = Num r \<longrightarrow>
          new_calls d d' = [UpdateFanSpeed v, BasePropertyUpdated key v old]
          \<and> thrown d' = thrown d)
     \<and> (key \<noteq> ''state'' \<and> key \<noteq> ''fanSpeed'' \<longrightarrow>
          new_calls d d' = [BasePropertyUpdated key v old]))"
  by (simp add: hook_defs property_def Let_def split: jsval.splits)

theorem charging_flag_and_order_witness:
  "charging_flag (propertyUpdated ''state'' (Str ''charging'') (Str ''docking'') busy_device) = True
   \<and> hook_log (propertyUpdated ''state'' (Str ''charging'') (Str ''docking'') busy_device) =
       [UpdateCharging True, UpdateCleaning False,
        BasePropertyUpdated ''state'' (Str ''charging'') (Str ''docking'')]
   \<and> Str ''zone-cleaning'' \<in> {Str ''cleaning'', Str ''spot-cleaning'', Str ''zone-cleaning'',
        Str ''room-cleaning''}
   \<and> hook_log (propertyUpdated ''state'' (Str ''zone-cleaning'') (Str ''charging'') busy_device) =
       [UpdateCharging False, UpdateCleaning True,
        BasePropertyUpdated ''state'' (Str ''zone-cleaning'') (Str ''charging'')]
   \<and> charging_flag (propertyUpdated ''state'' (Str ''error'') (Str ''charging'') busy_device) = False
   \<and> hook_log (propertyUpdated ''fanSpeed'' (Num 77) (Num 60) busy_device) =
       [UpdateFanSpeed (Num 77), BasePropertyUpdated ''fanSpeed'' (Num 77) (Num 60)]"
proof -
  have l: "hook_log busy_device = []"
    by (simp add: busy_device_def)
  from charging_flag_and_order [where key = "''state''" and v = "Str ''charging''"
      and old = "Str ''docking''" and d = busy_device]
    charging_flag_and_order [where key = "''state''" and v = "Str ''zone-cleaning''"
      and old = "Str ''charging''" and d = busy_device]
    charging_flag_and_order [where key = "''state''" and v = "Str ''error''"
      and old = "Str ''charging''" and d = busy_device]
    charging_flag_and_order [where key = "''fanSpeed''" and v = "Num 77" and old = "Num 60"
      and d = busy_device] l
  show ?thesis by (simp add: Let_def)
qed

text \<open>
  C10. For a key other than \<open>state\<close> and \<open>fanSpeed\<close>, \<open>propertyUpdated\<close> does what the base
  handler alone does with the same three arguments: no update hook is called, and the
  charging flag, the cleaning flag, the error, the fan speed and the properties are
  unchanged.
\<close>

theorem other_keys_only_forwarded:
  assumes "key \<noteq> ''state''" and "key \<noteq> ''fanSpeed''"
  shows "propertyUpdated key v old d = base_propertyUpdated key v old d
   \<and> new_calls d (propertyUpdated key v old d) = [BasePropertyUpdated key v old]
   \<and> charging_flag (propertyUpdated key v old d) = charging_flag d
   \<and> cleaning_flag (propertyUpdated key v old d) = cleaning_flag d
   \<and> error_state (propertyUpdated key v old d) = error_state d
   \<and> fan_speed (propertyUpdated key v old d) = fan_speed d
   \<and> properties (propertyUpdated key v old d) = properties d"
  using assms by (simp add: hook_defs)

theorem other_keys_only_forwarded_witness:
  "''batteryLevel'' \<noteq> ''state'' \<and> ''batteryLevel'' \<noteq> ''fanSpeed''
   \<and> hook_log (propertyUpdated ''batteryLevel'' (Num 79) (Num 80) busy_device) =
       [BasePropertyUpdated ''batteryLevel'' (Num 79) (Num 80)]
   \<and> cleaning_flag (propertyUpdated ''batteryLevel'' (Num 79) (Num 80) busy_device) = True"
proof -
  have a: "''batteryLevel'' \<noteq> ''state''" and b: "''batteryLevel'' \<noteq> ''fanSpeed''"
    by simp_all
  have c: "cleaning_flag busy_device = True" and l: "hook_log busy_device = []"
    by (simp_all add: busy_device_def)
  from other_keys_only_forwarded [OF a b, where v = "Num 79" and old = "Num 80" and d = busy_device] c l
  show ?thesis by (simp add: base_propertyUpdated_def)
qed

subsection \<open>The composite command\<close>

text \<open>
  C4, as amended. \<open>activateCharging\<close> first issues \<open>app_pause\<close>. If the pause succeeds, it
  waits 1000 ms and issues \<open>app_charge\<close>. If the pause fails, it issues \<open>app_stop\<close>; if that
  succeeds, it waits 1000 ms and issues \<open>app_charge\<close>; if that fails too, the command fails
  with the failure of the stop, having neither waited nor issued \<open>app_charge\<close>. Whenever
  \<open>app_charge\<close> is issued, the outcome of the command is the rejection of that call or
  else what the result check makes of its reply.
\<close>

theorem activateCharging_sequence:
  "snd (pause chk net tr) = tr @ [Call ''app_pause'' (Arr []) state_refresh]
   \<and> (\<forall>v. fst (pause chk net tr) = Inr v \<longrightarrow>
         activateCharging chk net tr =
           then_sync (call net ''app_charge'' (Arr []) state_refresh) chk
             (tr @ [Call ''app_pause'' (Arr []) state_refresh, Wait 1000]))
   \<and> (\<forall>e v. fst (pause chk net tr) = Inl e
            \<and> fst (deactivateCleaning chk net (tr @ [Call ''app_pause'' (Arr []) state_refresh]))
                = Inr v \<longrightarrow>
         activateCharging chk net tr =
           then_sync (call net ''app_charge'' (Arr []) state_refresh) chk
             (tr @ [Call ''app_pause'' (Arr []) state_refresh,
                    Call ''app_stop'' (Arr []) state_refresh, Wait 1000]))
   \<and> (\<forall>e e'. fst (pause chk net tr) = Inl e
            \<and> fst (deactivateCleaning chk net (tr @ [Call ''app_pause'' (Arr []) state_refresh]))
                = Inl e' \<longrightarrow>
         activateCharging chk net tr =
           (Inl e', tr @ [Call ''app_pause'' (Arr []) state_refresh,
                          Call ''app_stop'' (Arr []) state_refresh]))
   \<and> (\<forall>t. then_sync (call net ''app_charge'' (Arr []) state_refresh) chk t =
           (case reply net (t @ [Call ''app_charge'' (Arr []) state_refresh]) of
              Inl e \<Rightarrow> Inl e | Inr r \<Rightarrow> chk r,
            t @ [Call ''app_charge'' (Arr []) state_refresh]))"
  by (auto simp add: activateCharging_def pause_def deactivateCleaning_def promise_defs Let_def
      split: sum.splits prod.splits)

theorem activateCharging_sequence_witness:
  "fst (pause Inr refuses_pause []) = Inl (Rejected (Str ''not pausable''))
   \<and> fst (deactivateCleaning Inr refuses_pause [Call ''app_pause'' (Arr []) state_refresh])
       = Inr (Arr [Str ''ok''])
   \<and> activateCharging Inr refuses_pause [] =
       (Inr (Arr [Str ''ok'']),
        [Call ''app_pause'' (Arr []) state_refresh, Call ''app_stop'' (Arr []) state_refresh,
         Wait 1000, Call ''app_charge'' (Arr []) state_refresh])"
proof -
  have p: "fst (pause Inr refuses_pause []) = Inl (Rejected (Str ''not pausable''))"
    by (simp add: pause_def promise_defs refuses_pause_def method_calls_def)
  have s: "fst (deactivateCleaning Inr refuses_pause [Call ''app_pause'' (Arr []) state_refresh])
             = Inr (Arr [Str ''ok''])"
    by (simp add: deactivateCleaning_def promise_defs refuses_pause_def method_calls_def)
  have r: "reply refuses_pause (t @ [Call ''app_charge'' (Arr []) state_refresh])
             = Inr (Arr [Str ''ok''])" for t
    by (simp add: refuses_pause_def method_calls_def)
  from activateCharging_sequence [where chk = Inr and net = refuses_pause and tr = "[]"] p s r
  show ?thesis by simp
qed

text \<open>
  C4, as stated, fails: when the device cannot be reached, the pause fails, the stop
  issued in its place fails as well, and the command ends there: it does not wait and
  \<open>app_charge\<close> is never issued.
\<close>

theorem activateCharging_unreachable_counterexample:
  "isl (fst (pause Inr unreachable []))
   \<and> Wait 1000 \<notin> set (snd (activateCharging Inr unreachable []))
   \<and> method_calls ''app_charge'' (snd (activateCharging Inr unreachable [])) = []"
  by (simp add: activateCharging_def pause_def deactivateCleaning_def promise_defs
      unreachable_def method_calls_def state_refresh_def)

subsection \<open>The snapshot loader\<close>

text \<open>
  C3. Whatever keys are requested, and however many, one run of \<open>loadProperties\<close> issues
  the call \<open>get_status\<close> once, then the call \<open>get_consumable\<close> once, and no other call.
\<close>

theorem loadProperties_fetches_once:
  "snd (loadProperties defs net props tr) =
     tr @ [Call ''get_status'' Undefined None, Call ''get_consumable'' Undefined None]
   \<and> length (method_calls ''get_status'' (snd (loadProperties defs net props tr))) =
       length (method_calls ''get_status'' tr) + 1
   \<and> length (method_calls ''get_consumable'' (snd (loadProperties defs net props tr))) =
       length (method_calls ''get_consumable'' tr) + 1"
  by (simp add: loadProperties_def promise_defs Let_def method_calls_def
      split: sum.splits prod.splits)

theorem loadProperties_fetches_once_witness:
  "snd (loadProperties battery_definitions one_run [] []) =
     [Call ''get_status'' Undefined None, Call ''get_consumable'' Undefined None]
   \<and> snd (loadProperties battery_definitions unreachable
            [''batteryLevel'', ''state'', ''fanSpeed'', ''batteryLevel''] []) =
     [Call ''get_status'' Undefined None, Call ''get_consumable'' Undefined None]"
  using loadProperties_fetches_once [where defs = battery_definitions and net = one_run
      and props = "[]" and tr = "[]"]
    loadProperties_fetches_once [where defs = battery_definitions and net = unreachable
      and props = "[''batteryLevel'', ''state'', ''fanSpeed'', ''batteryLevel'']" and tr = "[]"]
  by simp

text \<open>
  C7. When the call \<open>get_status\<close> or the call \<open>get_consumable\<close> is rejected,
  \<open>loadProperties\<close> is rejected, with the reason of one of the rejected calls: it returns
  no snapshot.
\<close>

theorem loadProperties_fails_with_fetch:
  assumes "isl (reply net (tr @ [Call ''get_status'' Undefined None]))
         \<or> isl (reply net (tr @ [Call ''get_status'' Undefined None,
                                  Call ''get_consumable'' Undefined None]))"
  shows "\<exists>e. fst (loadProperties defs net props tr) = Inl e
           \<and> (reply net (tr @ [Call ''get_status'' Undefined None]) = Inl e
              \<or> reply net (tr @ [Call ''get_status'' Undefined None,
                                  Call ''get_consumable'' Undefined None]) = Inl e)"
  using assms
  by (auto simp add: loadProperties_def promise_defs Let_def promise_all2_def isl_def
      split: sum.splits prod.splits)

theorem loadProperties_fails_with_fetch_witness:
  "isl (reply unreachable ([] @ [Call ''get_status'' Undefined None]))
   \<and> fst (loadProperties battery_definitions unreachable [''batteryLevel''] []) =
       Inl (Rejected (Str ''timeout''))"
proof -
  have a: "isl (reply unreachable ([] @ [Call ''get_status'' Undefined None]))"
    by (simp add: unreachable_def)
  have r: "reply unreachable t = Inl (Rejected (Str ''timeout''))" for t
    by (simp add: unreachable_def)
  from loadProperties_fails_with_fetch [OF disjI1, OF a, where defs = battery_definitions
      and props = "[''batteryLevel'']"] a
  show ?thesis by (auto simp add: r)
qed

subsection \<open>The history of a day\<close>

text \<open>
  C9, as amended. For every instant \<open>t\<close>, in milliseconds, \<open>getHistoryForDay\<close> called with
  the date of \<open>t\<close> and called with the whole seconds of \<open>t\<close> as a number issue the same
  request, fail in the same cases with the same failure, and otherwise return the same
  history entries; the field \<open>day\<close> of the result is the argument as the caller gave it,
  the date in one case and the number in the other.
\<close>

theorem getHistoryForDay_same_request_and_history:
  "snd (getHistoryForDay net (DateV t) tr) =
     tr @ [Call ''get_clean_record'' (Arr [Num (of_int (t div 1000))]) None]
   \<and> snd (getHistoryForDay net (Num (of_int (t div 1000))) tr) =
     tr @ [Call ''get_clean_record'' (Arr [Num (of_int (t div 1000))]) None]
   \<and> (\<forall>e. fst (getHistoryForDay net (DateV t) tr) = Inl e \<longleftrightarrow>
           fst (getHistoryForDay net (Num (of_int (t div 1000))) tr) = Inl e)
   \<and> (\<forall>x. fst (getHistoryForDay net (DateV t) tr) = Inr x \<longrightarrow>
         (\<exists>h. x = Obj [(''day'', DateV t), (''history'', Arr h)]
              \<and> fst (getHistoryForDay net (Num (of_int (t div 1000))) tr) =
                  Inr (Obj [(''day'', Num (of_int (t div 1000))), (''history'', Arr h)])))"
  by (auto simp add: getHistoryForDay_def promise_defs record_of_day_date record_of_day_seconds
      history_result_def Let_def split: sum.splits prod.splits jsval.splits)

theorem getHistoryForDay_same_request_and_history_witness:
  "fst (getHistoryForDay one_run (DateV 5999) []) =
     Inr (Obj [(''day'', DateV 5999),
               (''history'', Arr [Obj [(''start'', DateV 5000), (''end'', DateV 65000),
                  (''duration'', Num 60), (''area'', Num 26), (''complete'', Bool True)]])])
   \<and> fst (getHistoryForDay one_run (Num 5) []) =
     Inr (Obj [(''day'', Num 5),
               (''history'', Arr [Obj [(''start'', DateV 5000), (''end'', DateV 65000),
                  (''duration'', Num 60), (''area'', Num 26), (''complete'', Bool True)]])])
   \<and> snd (getHistoryForDay one_run (DateV 5999) []) =
       [Call ''get_clean_record'' (Arr [Num 5]) None]"
proof -
  have a: "fst (getHistoryForDay one_run (DateV 5999) []) =
     Inr (Obj [(''day'', DateV 5999),
               (''history'', Arr [Obj [(''start'', DateV 5000), (''end'', DateV 65000),
                  (''duration'', Num 60), (''area'', Num 26), (''complete'', Bool True)]])])"
    by (simp add: getHistoryForDay_def promise_defs record_of_day_date history_result_def
        one_run_def one_run_entry)
  from getHistoryForDay_same_request_and_history [where net = one_run and t = 5999 and tr = "[]"] a
  show ?thesis by simp
qed

text \<open>
  C9, as stated, fails: for the instant five seconds after the epoch, the date and the
  number 5 lead to the same request, but the two results differ in the field \<open>day\<close>.
\<close>

theorem getHistoryForDay_day_field_counterexample:
  "snd (getHistoryForDay one_run (DateV 5000) []) = snd (getHistoryForDay one_run (Num 5) [])
   \<and> fst (getHistoryForDay one_run (DateV 5000) []) \<noteq> fst (getHistoryForDay one_run (Num 5) [])
   \<and> fst (getHistoryForDay one_run (DateV 5000) []) =
       Inr (Obj [(''day'', DateV 5000),
                 (''history'', Arr [Obj [(''start'', DateV 5000), (''end'', DateV 65000),
                    (''duration'', Num 60), (''area'', Num 26), (''complete'', Bool True)]])])
   \<and> fst (getHistoryForDay one_run (Num 5) []) =
       Inr (Obj [(''day'', Num 5),
                 (''history'', Arr [Obj [(''start'', DateV 5000), (''end'', DateV 65000),
                    (''duration'', Num 60), (''area'', Num 26), (''complete'', Bool True)]])])"
  by (simp add: getHistoryForDay_def promise_defs record_of_day_def history_result_def
      one_run_def one_run_entry Let_def)

end
